theory Spec2Isabelle
  imports Complex_Main
begin

section \<open>Python values shared by both skills\<close>

text \<open>
  A \<open>date\<close> is represented by its proleptic Gregorian ordinal (\<open>date.toordinal()\<close>):
  dates compare as their ordinals do, \<open>d - timedelta(days=1)\<close> is \<open>d - 1\<close> and
  \<open>(a - b).days\<close> is \<open>a - b\<close>. The run date is \<open>date.today()\<close>, far from
  \<open>date.min\<close>, so the subtraction of one day does not overflow.
\<close>

type_synonym date = int

datatype exn = ValueError | TypeError | AttributeError | TimeoutExpired | OSError

text \<open>\<open>str(n)\<close> for an integer, as an f-string renders it.\<close>

fun str_nat :: "nat \<Rightarrow> string" where
  "str_nat n = (if n < 10 then [''0123456789'' ! n]
                else str_nat (n div 10) @ [''0123456789'' ! (n mod 10)])"

declare str_nat.simps [simp del]

definition str_int :: "int \<Rightarrow> string" where
  "str_int i = (if i < 0 then CHR ''-'' # str_nat (nat (- i)) else str_nat (nat i))"

section \<open>streak-tracker.py\<close>

subsection \<open>The store\<close>

text \<open>
  The two tables the tracker reads and writes. \<open>last_completed\<close> is a TEXT column
  holding an ISO date or NULL; \<open>active\<close> is stored as 0 or 1. The timestamp of a
  log row is filled in by the store and is not written by the code.
\<close>

record habit =
  habit_id :: int
  habit_name :: string
  habit_description :: string
  streak_count :: int
  last_completed :: "string option"
  goal_frequency :: string
  active :: int

record habit_log_entry =
  log_habit_id :: int
  log_notes :: string

record store =
  habits :: "habit list"
  habit_log :: "habit_log_entry list"

text \<open>\<open>SELECT ... FROM habits WHERE id = ?\<close> followed by \<open>fetchone()\<close>.\<close>

definition fetch_habit :: "int \<Rightarrow> habit list \<Rightarrow> habit option" where
  "fetch_habit hid hs = find (\<lambda>h. habit_id h = hid) hs"

text \<open>\<open>UPDATE habits SET ... WHERE id = ?\<close>.\<close>

definition update_habits :: "int \<Rightarrow> (habit \<Rightarrow> habit) \<Rightarrow> habit list \<Rightarrow> habit list" where
  "update_habits hid f hs = map (\<lambda>h. if habit_id h = hid then f h else h) hs"

text \<open>\<open>INSERT INTO habit_log (habit_id, notes) VALUES (?, ?)\<close>.\<close>

definition insert_log :: "int \<Rightarrow> string \<Rightarrow> store \<Rightarrow> store" where
  "insert_log hid notes st =
     st\<lparr>habit_log := habit_log st @ [\<lparr>log_habit_id = hid, log_notes = notes\<rparr>]\<rparr>"

definition set_streak :: "(int \<Rightarrow> int) \<Rightarrow> string \<Rightarrow> int \<Rightarrow> store \<Rightarrow> store" where
  "set_streak f day hid st =
     st\<lparr>habits := update_habits hid
            (\<lambda>h. h\<lparr>streak_count := f (streak_count h), last_completed := Some day\<rparr>) (habits st)\<rparr>"

definition set_last_completed :: "string \<Rightarrow> int \<Rightarrow> store \<Rightarrow> store" where
  "set_last_completed day hid st =
     st\<lparr>habits := update_habits hid (\<lambda>h. h\<lparr>last_completed := Some day\<rparr>) (habits st)\<rparr>"

subsection \<open>complete_habit\<close>

text \<open>
  \<open>isoformat\<close> and \<open>fromisoformat\<close> are the standard library's \<open>date.isoformat\<close>
  and \<open>date.fromisoformat\<close> (\<open>None\<close> for its \<open>ValueError\<close>); \<open>today\<close> is
  \<open>date.today()\<close>. The result is the returned flag with the committed store, or the
  exception that leaves the method: a \<open>ValueError\<close> is not an \<open>sqlite3.Error\<close>, so
  it is not caught, and nothing is committed. The store itself is taken to answer every
  statement.
\<close>

definition complete_habit ::
  "(date \<Rightarrow> string) \<Rightarrow> (string \<Rightarrow> date option) \<Rightarrow> date \<Rightarrow> store \<Rightarrow> int \<Rightarrow> string
     \<Rightarrow> exn + (bool \<times> store)" where
  "complete_habit isoformat fromisoformat today st hid notes =
     (case fetch_habit hid (habits st) of
        None \<Rightarrow> Inr (False, st)
      | Some row \<Rightarrow>
          if goal_frequency row = ''daily'' \<and> last_completed row = Some (isoformat today)
          then Inr (False, st)
          else
            let logged = insert_log hid notes st;
                first = set_streak (\<lambda>n. 1) (isoformat today) hid logged
            in
            if goal_frequency row = ''daily'' then
              (case last_completed row of
                 None \<Rightarrow> Inr (True, first)
               | Some s \<Rightarrow>
                   if s = [] then Inr (True, first)
                   else
                     (case fromisoformat s of
                        None \<Rightarrow> Inl ValueError
                      | Some last_date \<Rightarrow>
                          if last_date = today - 1
                          then Inr (True, set_streak (\<lambda>n. n + 1) (isoformat today) hid logged)
                          else if last_date < today - 1
                          then Inr (True, set_streak (\<lambda>n. 1) (isoformat today) hid logged)
                          else Inr (True, logged)))
            else if goal_frequency row = ''weekly''
            then Inr (True, set_last_completed (isoformat today) hid logged)
            else if goal_frequency row = ''monthly''
            then Inr (True, set_last_completed (isoformat today) hid logged)
            else Inr (True, logged))"

subsection \<open>get_habit_reminders\<close>

record reminder =
  r_habit_id :: int
  r_name :: string
  r_streak_count :: int
  r_days_since :: "int option"
  r_message :: string

text \<open>
  The message chosen at the end of the loop body; the name is put between apostrophes.
  The flame emoji of the streak message is written as its four UTF-8 bytes.
\<close>

definition fire :: string where
  "fire = [char_of (240 :: nat), char_of (159 :: nat), char_of (148 :: nat), char_of (165 :: nat)]"

definition quoted :: "string \<Rightarrow> string" where
  "quoted name = [CHR 0x27] @ name @ [CHR 0x27]"

definition reminder_message :: "string \<Rightarrow> int \<Rightarrow> int option \<Rightarrow> string" where
  "reminder_message name streak days_since =
     (case days_since of
        None \<Rightarrow> ''Ready to start '' @ quoted name @ ''? First step is the hardest!''
      | Some n \<Rightarrow>
          if n = 1 then
            (if streak > 1
             then quoted name @ '' - keep that '' @ str_int streak @ ''-day streak going! '' @ fire
             else ''Time for '' @ quoted name @ '' - you'' @ [CHR 0x27] @ ''ve got this!'')
          else if n = 2
          then quoted name @ '' - no worries, just pick it back up when ready.''
          else if n \<le> 7
          then quoted name @ '' - when you'' @ [CHR 0x27] @ ''re ready to jump back in.''
          else quoted name @ '' - waiting for you when inspiration strikes.'')"

text \<open>The body of the loop over the fetched rows; \<open>None\<close> is its \<open>continue\<close>.\<close>

definition remind_row ::
  "(date \<Rightarrow> string) \<Rightarrow> (string \<Rightarrow> date option) \<Rightarrow> date \<Rightarrow> habit \<Rightarrow> exn + reminder option" where
  "remind_row isoformat fromisoformat today row =
     (if last_completed row = Some (isoformat today) then Inr None
      else
        (case (case last_completed row of
                 None \<Rightarrow> Inr None
               | Some s \<Rightarrow>
                   if s = [] then Inr None
                   else (case fromisoformat s of
                           None \<Rightarrow> Inl ValueError
                         | Some d \<Rightarrow> Inr (Some (today - d)))) of
           Inl e \<Rightarrow> Inl e
         | Inr days_since \<Rightarrow>
             Inr (Some \<lparr>r_habit_id = habit_id row, r_name = habit_name row,
                        r_streak_count = streak_count row, r_days_since = days_since,
                        r_message = reminder_message (habit_name row) (streak_count row) days_since\<rparr>)))"

fun remind_rows ::
  "(date \<Rightarrow> string) \<Rightarrow> (string \<Rightarrow> date option) \<Rightarrow> date \<Rightarrow> habit list \<Rightarrow> exn + reminder list" where
  "remind_rows isoformat fromisoformat today [] = Inr []"
| "remind_rows isoformat fromisoformat today (row # rows) =
     (case remind_row isoformat fromisoformat today row of
        Inl e \<Rightarrow> Inl e
      | Inr None \<Rightarrow> remind_rows isoformat fromisoformat today rows
      | Inr (Some r) \<Rightarrow>
          (case remind_rows isoformat fromisoformat today rows of
             Inl e \<Rightarrow> Inl e
           | Inr rs \<Rightarrow> Inr (r # rs)))"

text \<open>\<open>SELECT ... FROM habits WHERE active = 1 AND goal_frequency = 'daily'\<close>, then the loop.\<close>

definition get_habit_reminders ::
  "(date \<Rightarrow> string) \<Rightarrow> (string \<Rightarrow> date option) \<Rightarrow> date \<Rightarrow> store \<Rightarrow> exn + reminder list" where
  "get_habit_reminders isoformat fromisoformat today st =
     remind_rows isoformat fromisoformat today
       (filter (\<lambda>h. active h = 1 \<and> goal_frequency h = ''daily'') (habits st))"

text \<open>
  A row the loop can handle without an exception: its last completion is NULL, empty,
  today's ISO date (the row is then skipped before any parsing), or a text that
  \<open>fromisoformat\<close> accepts.
\<close>

definition readable :: "(date \<Rightarrow> string) \<Rightarrow> (string \<Rightarrow> date option) \<Rightarrow> date \<Rightarrow> habit \<Rightarrow> bool" where
  "readable isoformat fromisoformat today row \<longleftrightarrow>
     (case last_completed row of
        None \<Rightarrow> True
      | Some s \<Rightarrow> s = [] \<or> s = isoformat today \<or> fromisoformat s \<noteq> None)"

text \<open>The rows that the query selects and the loop does not skip.\<close>

definition due :: "(date \<Rightarrow> string) \<Rightarrow> date \<Rightarrow> habit \<Rightarrow> bool" where
  "due isoformat today row \<longleftrightarrow>
     active row = 1 \<and> goal_frequency row = ''daily''
     \<and> last_completed row \<noteq> Some (isoformat today)"

subsection \<open>Several completions in a row\<close>

text \<open>
  One \<open>complete\<close> command after the other on the same day, each with its own notes;
  the flags are collected in order.
\<close>

fun complete_habit_seq ::
  "(date \<Rightarrow> string) \<Rightarrow> (string \<Rightarrow> date option) \<Rightarrow> date \<Rightarrow> store \<Rightarrow> int \<Rightarrow> string list
     \<Rightarrow> exn + (bool list \<times> store)" where
  "complete_habit_seq isoformat fromisoformat today st hid [] = Inr ([], st)"
| "complete_habit_seq isoformat fromisoformat today st hid (notes # rest) =
     (case complete_habit isoformat fromisoformat today st hid notes of
        Inl e \<Rightarrow> Inl e
      | Inr (ok, st') \<Rightarrow>
          (case complete_habit_seq isoformat fromisoformat today st' hid rest of
             Inl e \<Rightarrow> Inl e
           | Inr (oks, st'') \<Rightarrow> Inr (ok # oks, st'')))"

subsection \<open>The standard library's ISO dates\<close>

text \<open>
  \<open>date.isoformat\<close> and \<open>date.fromisoformat\<close> on the form \<open>YYYY-MM-DD\<close>, after
  the arithmetic of CPython's \<open>datetime\<close> module. The properties below hold for any
  pair of functions with the two laws of \<open>iso_laws\<close>; this pair is the one the
  tracker runs with.
\<close>

definition is_leap :: "int \<Rightarrow> bool" where
  "is_leap y \<longleftrightarrow> y mod 4 = 0 \<and> (y mod 100 \<noteq> 0 \<or> y mod 400 = 0)"

definition days_before_year :: "int \<Rightarrow> int" where
  "days_before_year year = (let y = year - 1 in y * 365 + y div 4 - y div 100 + y div 400)"

definition days_in_month :: "int \<Rightarrow> int \<Rightarrow> int" where
  "days_in_month y m =
     (if m = 2 \<and> is_leap y then 29
      else [31, 28, 31, 30, 31, 30, 31, 31, 30, 31, 30, 31] ! nat (m - 1))"

definition days_before_month :: "int \<Rightarrow> int \<Rightarrow> int" where
  "days_before_month y m =
     [0, 31, 59, 90, 120, 151, 181, 212, 243, 273, 304, 334] ! nat (m - 1)
       + (if m > 2 \<and> is_leap y then 1 else 0)"

definition ymd2ord :: "int \<Rightarrow> int \<Rightarrow> int \<Rightarrow> date" where
  "ymd2ord y m d = days_before_year y + days_before_month y m + d"

definition ord2ymd :: "date \<Rightarrow> int \<times> int \<times> int" where
  "ord2ymd ordinal =
     (let n = ordinal - 1;
          n400 = n div 146097; n = n mod 146097;
          n100 = n div 36524; n = n mod 36524;
          n4 = n div 1461; n = n mod 1461;
          n1 = n div 365; n = n mod 365;
          year = n400 * 400 + 1 + n100 * 100 + n4 * 4 + n1
      in if n1 = 4 \<or> n100 = 4 then (year - 1, 12, 31)
         else
           let leapyear = (n1 = 3 \<and> (n4 \<noteq> 24 \<or> n100 = 3));
               month = (n + 50) div 32;
               preceding = [0, 31, 59, 90, 120, 151, 181, 212, 243, 273, 304, 334] ! nat (month - 1)
                             + (if month > 2 \<and> leapyear then 1 else 0)
           in if preceding > n
              then let month = month - 1;
                       preceding = preceding
                         - ([31, 28, 31, 30, 31, 30, 31, 31, 30, 31, 30, 31] ! nat (month - 1)
                            + (if month = 2 \<and> leapyear then 1 else 0))
                   in (year, month, n - preceding + 1)
              else (year, month, n - preceding + 1))"

definition zfill :: "nat \<Rightarrow> string \<Rightarrow> string" where
  "zfill w s = replicate (w - length s) CHR ''0'' @ s"

definition date_isoformat :: "date \<Rightarrow> string" where
  "date_isoformat ordinal =
     (case ord2ymd ordinal of
        (y, m, d) \<Rightarrow> zfill 4 (str_int y) @ ''-'' @ zfill 2 (str_int m) @ ''-'' @ zfill 2 (str_int d))"

definition digit_of :: "char \<Rightarrow> int option" where
  "digit_of c = map_of (zip ''0123456789'' [0, 1, 2, 3, 4, 5, 6, 7, 8, 9]) c"

fun number_of :: "int \<Rightarrow> string \<Rightarrow> int option" where
  "number_of acc [] = Some acc"
| "number_of acc (c # cs) =
     (case digit_of c of None \<Rightarrow> None | Some v \<Rightarrow> number_of (10 * acc + v) cs)"

definition date_fromisoformat :: "string \<Rightarrow> date option" where
  "date_fromisoformat s =
     (if length s = 10 \<and> s ! 4 = CHR ''-'' \<and> s ! 7 = CHR ''-'' then
        (case (number_of 0 (take 4 s), number_of 0 (take 2 (drop 5 s)), number_of 0 (drop 8 s)) of
           (Some y, Some m, Some d) \<Rightarrow>
             if 1 \<le> y \<and> 1 \<le> m \<and> m \<le> 12 \<and> 1 \<le> d \<and> d \<le> days_in_month y m
             then Some (ymd2ord y m d) else None
         | _ \<Rightarrow> None)
      else None)"

text \<open>
  What the properties use of the two library functions: the empty string is no date, and
  today's ISO form reads back as today.
\<close>

definition iso_laws :: "(date \<Rightarrow> string) \<Rightarrow> (string \<Rightarrow> date option) \<Rightarrow> date \<Rightarrow> bool" where
  "iso_laws isoformat fromisoformat today \<longleftrightarrow>
     fromisoformat [] = None \<and> fromisoformat (isoformat today) = Some today"

subsection \<open>Reading the outcome of a completion\<close>

text \<open>
  A completion is accepted with row \<open>h'\<close> when the method returns \<open>True\<close>, the log
  has gained exactly the one entry of this call, and the habit then reads \<open>h'\<close>.
\<close>

definition accepted :: "exn + (bool \<times> store) \<Rightarrow> store \<Rightarrow> int \<Rightarrow> string \<Rightarrow> habit \<Rightarrow> bool" where
  "accepted res st hid notes h' \<longleftrightarrow>
     (case res of
        Inl e \<Rightarrow> False
      | Inr (ok, st') \<Rightarrow>
          ok \<and> habit_log st' = habit_log st @ [\<lparr>log_habit_id = hid, log_notes = notes\<rparr>]
             \<and> fetch_habit hid (habits st') = Some h')"

text \<open>A store with one habit, of the given cadence and last completion.\<close>

definition example_habit :: "string \<Rightarrow> string option \<Rightarrow> habit" where
  "example_habit freq lc =
     \<lparr>habit_id = 1, habit_name = ''exercise'', habit_description = [],
      streak_count = 3, last_completed = lc, goal_frequency = freq, active = 1\<rparr>"

definition example_store :: "string \<Rightarrow> string option \<Rightarrow> store" where
  "example_store freq lc = \<lparr>habits = [example_habit freq lc], habit_log = []\<rparr>"

text \<open>
  A store with four habits: two daily ones that are due, a daily one already completed
  today and a weekly one.
\<close>

definition example_habits :: store where
  "example_habits =
     \<lparr>habits =
        [example_habit ''daily'' (Some ''2024-01-04''),
         \<lparr>habit_id = 2, habit_name = ''reading'', habit_description = [],
          streak_count = 0, last_completed = None, goal_frequency = ''daily'', active = 1\<rparr>,
         \<lparr>habit_id = 3, habit_name = ''stretch'', habit_description = [],
          streak_count = 7, last_completed = Some ''2024-01-05'', goal_frequency = ''daily'',
          active = 1\<rparr>,
         \<lparr>habit_id = 4, habit_name = ''review'', habit_description = [],
          streak_count = 0, last_completed = Some ''2024-01-02'', goal_frequency = ''weekly'',
          active = 1\<rparr>],
      habit_log = []\<rparr>"

section \<open>focus-session.py\<close>

subsection \<open>Decoded JSON\<close>

text \<open>
  What \<open>json.loads\<close> returns: an object is a \<open>dict\<close>, kept as its list of items.
  \<open>truthy\<close> is Python's truth test, \<open>py_get\<close> is \<open>x.get(key, default)\<close>, which
  only a \<open>dict\<close> has, and \<open>py_iter\<close> is what a \<open>for\<close> loop over the value visits.
\<close>

datatype json = JNull | JBool bool | JNum rat | JStr string | JArr "json list"
  | JObj "(string \<times> json) list"

fun truthy :: "json \<Rightarrow> bool" where
  "truthy JNull = False"
| "truthy (JBool b) = b"
| "truthy (JNum n) = (n \<noteq> 0)"
| "truthy (JStr s) = (s \<noteq> [])"
| "truthy (JArr xs) = (xs \<noteq> [])"
| "truthy (JObj kvs) = (kvs \<noteq> [])"

fun py_get :: "json \<Rightarrow> string \<Rightarrow> json \<Rightarrow> exn + json" where
  "py_get (JObj kvs) k d = Inr (case map_of kvs k of None \<Rightarrow> d | Some v \<Rightarrow> v)"
| "py_get _ k d = Inl AttributeError"

fun py_iter :: "json \<Rightarrow> exn + json list" where
  "py_iter (JArr xs) = Inr xs"
| "py_iter (JStr s) = Inr (map (\<lambda>c. JStr [c]) s)"
| "py_iter (JObj kvs) = Inr (map (\<lambda>kv. JStr (fst kv)) kvs)"
| "py_iter _ = Inl TypeError"

text \<open>\<open>s.replace("Z", "+00:00")\<close>.\<close>

definition replace_Z :: "string \<Rightarrow> string" where
  "replace_Z s = concat (map (\<lambda>c. if c = CHR ''Z'' then ''+00:00'' else [c]) s)"

subsection \<open>Datetimes\<close>

text \<open>
  A naive \<open>datetime\<close> is its count of microseconds; an aware one carries its UTC offset
  as well. \<open>datetime.now()\<close> is naive, and comparing a naive with an aware datetime
  raises \<open>TypeError\<close>.
\<close>

type_synonym instant = int

datatype pydatetime = Naive instant | Aware instant int

definition hours :: "int \<Rightarrow> int" where
  "hours h = h * 3600000000"

definition plus_hours :: "pydatetime \<Rightarrow> int \<Rightarrow> pydatetime" where
  "plus_hours t h = (case t of Naive i \<Rightarrow> Naive (i + hours h) | Aware i off \<Rightarrow> Aware (i + hours h) off)"

subsection \<open>get_calendar_events\<close>

record event =
  ev_start :: instant
  ev_end :: instant
  ev_summary :: json
  ev_description :: json

text \<open>
  The inner \<open>try\<close> block of the loop: both timestamps are parsed, then
  \<open>start <= future and end > now\<close> is tested against the naive clock.
\<close>

definition parse_times ::
  "(string \<Rightarrow> pydatetime option) \<Rightarrow> json \<Rightarrow> json \<Rightarrow> exn + (pydatetime \<times> pydatetime)" where
  "parse_times dt_fromisoformat start_str end_str =
     (case start_str of
        JStr s \<Rightarrow>
          (case dt_fromisoformat (replace_Z s) of
             None \<Rightarrow> Inl ValueError
           | Some start \<Rightarrow>
               if truthy end_str then
                 (case end_str of
                    JStr e \<Rightarrow>
                      (case dt_fromisoformat (replace_Z e) of
                         None \<Rightarrow> Inl ValueError
                       | Some en \<Rightarrow> Inr (start, en))
                  | _ \<Rightarrow> Inl AttributeError)
               else Inr (start, plus_hours start 1))
      | _ \<Rightarrow> Inl AttributeError)"

definition in_window :: "instant \<Rightarrow> instant \<Rightarrow> pydatetime \<Rightarrow> pydatetime \<Rightarrow> exn + (instant \<times> instant) option" where
  "in_window now future start en =
     (case start of
        Aware _ _ \<Rightarrow> Inl TypeError
      | Naive s \<Rightarrow>
          if s \<le> future then
            (case en of
               Aware _ _ \<Rightarrow> Inl TypeError
             | Naive e \<Rightarrow> if e > now then Inr (Some (s, e)) else Inr None)
          else Inr None)"

text \<open>
  One pass of the loop body: \<open>Inr None\<close> is an item that is skipped, \<open>Inl\<close> an
  exception that leaves the loop. Only \<open>ValueError\<close> and \<open>TypeError\<close> raised inside
  the inner \<open>try\<close> are turned into a skip.
\<close>

fun process_item ::
  "(string \<Rightarrow> pydatetime option) \<Rightarrow> instant \<Rightarrow> instant \<Rightarrow> json \<Rightarrow> exn + event option" where
  "process_item dt_fromisoformat now future (JObj kvs) =
     (case py_get (case map_of kvs ''start'' of None \<Rightarrow> JObj [] | Some v \<Rightarrow> v)
             ''dateTime'' (JStr []) of
        Inl e \<Rightarrow> Inl e
      | Inr start_str \<Rightarrow>
          (case py_get (case map_of kvs ''end'' of None \<Rightarrow> JObj [] | Some v \<Rightarrow> v)
                  ''dateTime'' (JStr []) of
             Inl e \<Rightarrow> Inl e
           | Inr end_str \<Rightarrow>
               if \<not> truthy start_str then Inr None
               else
                 (case (case parse_times dt_fromisoformat start_str end_str of
                          Inl e \<Rightarrow> Inl e
                        | Inr (start, en) \<Rightarrow> in_window now future start en) of
                    Inl ValueError \<Rightarrow> Inr None
                  | Inl TypeError \<Rightarrow> Inr None
                  | Inl e \<Rightarrow> Inl e
                  | Inr None \<Rightarrow> Inr None
                  | Inr (Some (s, e)) \<Rightarrow>
                      Inr (Some \<lparr>ev_start = s, ev_end = e,
                        ev_summary = (case map_of kvs ''summary'' of
                                        None \<Rightarrow> JStr ''No title'' | Some v \<Rightarrow> v),
                        ev_description = (case map_of kvs ''description'' of
                                            None \<Rightarrow> JStr [] | Some v \<Rightarrow> v)\<rparr>))))"
| "process_item dt_fromisoformat now future _ = Inl AttributeError"

fun filter_events ::
  "(string \<Rightarrow> pydatetime option) \<Rightarrow> instant \<Rightarrow> instant \<Rightarrow> json list \<Rightarrow> exn + event list" where
  "filter_events dt_fromisoformat now future [] = Inr []"
| "filter_events dt_fromisoformat now future (item # items) =
     (case process_item dt_fromisoformat now future item of
        Inl e \<Rightarrow> Inl e
      | Inr None \<Rightarrow> filter_events dt_fromisoformat now future items
      | Inr (Some ev) \<Rightarrow>
          (case filter_events dt_fromisoformat now future items of
             Inl e \<Rightarrow> Inl e
           | Inr evs \<Rightarrow> Inr (ev # evs)))"

text \<open>
  How the call of the \<open>gog\<close> command ends: \<open>subprocess.run\<close> raises (the 30 second
  timeout, a missing executable), or the process completes with an exit status and its
  standard output.
\<close>

datatype run_outcome = Raised exn | Completed int string

text \<open>
  \<open>json_loads\<close> is \<open>json.loads\<close> (\<open>None\<close> for its decoding error), \<open>dt_fromisoformat\<close>
  is \<open>datetime.fromisoformat\<close> (\<open>None\<close> for its \<open>ValueError\<close>), \<open>now\<close> is the
  clock. Every exception of the body reaches \<open>except Exception\<close>, which returns the
  empty list.
\<close>

definition get_calendar_events ::
  "(string \<Rightarrow> json option) \<Rightarrow> (string \<Rightarrow> pydatetime option) \<Rightarrow> instant \<Rightarrow> int \<Rightarrow> run_outcome
     \<Rightarrow> event list" where
  "get_calendar_events json_loads dt_fromisoformat now hours_ahead outcome =
     (case outcome of
        Raised e \<Rightarrow> []
      | Completed returncode stdout \<Rightarrow>
          if returncode \<noteq> 0 then []
          else
            (case json_loads stdout of
               None \<Rightarrow> []
             | Some events \<Rightarrow>
                 (case (case py_get events ''items'' (JArr []) of
                          Inl e \<Rightarrow> Inl e
                        | Inr items \<Rightarrow>
                            (case py_iter items of
                               Inl e \<Rightarrow> Inl e
                             | Inr xs \<Rightarrow>
                                 filter_events dt_fromisoformat now (now + hours hours_ahead) xs)) of
                    Inl e \<Rightarrow> []
                  | Inr filtered_events \<Rightarrow> sort_key ev_start filtered_events)))"

subsection \<open>find_focus_opportunities\<close>

text \<open>
  An opportunity is the dictionary the method builds; a key that is not set is \<open>None\<close>.
  The duration is \<open>total_seconds() / 60\<close>, kept as the exact quotient of the count of
  microseconds; the float of the source differs from it by rounding only.
\<close>

record opportunity =
  opp_start :: instant
  opp_end :: instant
  opp_duration :: rat
  after_event :: "json option"
  before_event :: "json option"

definition minutes_between :: "instant \<Rightarrow> instant \<Rightarrow> rat" where
  "minutes_between a b = of_int (b - a) / 1000000 / 60"

text \<open>The loop over \<open>range(len(events) - 1)\<close>.\<close>

fun between_events :: "event list \<Rightarrow> int \<Rightarrow> opportunity list" where
  "between_events (a # b # es) min_minutes =
     (if minutes_between (ev_end a) (ev_start b) \<ge> of_int min_minutes
      then [\<lparr>opp_start = ev_end a, opp_end = ev_start b,
              opp_duration = minutes_between (ev_end a) (ev_start b),
              after_event = Some (ev_summary a), before_event = Some (ev_summary b)\<rparr>]
      else [])
     @ between_events (b # es) min_minutes"
| "between_events es min_minutes = []"

text \<open>
  \<open>events\<close> is the answer of \<open>get_calendar_events(hours_ahead=12)\<close> and \<open>now\<close> the
  clock read after it.
\<close>

definition find_focus_opportunities :: "event list \<Rightarrow> instant \<Rightarrow> int \<Rightarrow> opportunity list" where
  "find_focus_opportunities events now min_minutes =
     (case events of
        [] \<Rightarrow> []
      | first # _ \<Rightarrow>
          if ev_start first > now \<and> minutes_between now (ev_start first) \<ge> of_int min_minutes
          then [\<lparr>opp_start = now, opp_end = ev_start first,
                  opp_duration = minutes_between now (ev_start first),
                  after_event = None, before_event = Some (ev_summary first)\<rparr>]
          else [])
     @ between_events events min_minutes"

subsection \<open>propose_focus_session\<close>

text \<open>\<open>int(x)\<close> of a number: the fraction is cut off, towards zero.\<close>

definition py_int :: "rat \<Rightarrow> int" where
  "py_int x = (if x \<ge> 0 then \<lfloor>x\<rfloor> else \<lceil>x\<rceil>)"

record proposal =
  p_start :: string
  p_end :: string
  duration_minutes :: int
  suggested_timer :: string
  task_name :: string
  energy :: "int option"
  context_after :: json
  context_before :: json

definition timer_for :: "int \<Rightarrow> string" where
  "timer_for minutes =
     (if minutes \<ge> 240 then ''120 min (deep work block)''
      else if minutes \<ge> 180 then ''90 min (3 pomodoros + long break)''
      else if minutes \<ge> 120 then ''90 min (focus block)''
      else str_int (minutes - 15) @ '' min (focus session)'')"

text \<open>
  \<open>dt_isoformat\<close> is \<open>datetime.isoformat\<close>; \<open>task_name or "TBD"\<close> replaces a
  missing or empty name; \<open>opportunity.get(key)\<close> gives \<open>None\<close> for a key not set.
\<close>

definition propose_focus_session ::
  "(instant \<Rightarrow> string) \<Rightarrow> opportunity \<Rightarrow> string option \<Rightarrow> int option \<Rightarrow> proposal" where
  "propose_focus_session dt_isoformat opp task energy_level =
     (let minutes = py_int (opp_duration opp) in
      \<lparr>p_start = dt_isoformat (opp_start opp),
       p_end = dt_isoformat (opp_end opp),
       duration_minutes = minutes,
       suggested_timer = timer_for minutes,
       task_name = (case task of None \<Rightarrow> ''TBD'' | Some t \<Rightarrow> if t = [] then ''TBD'' else t),
       energy = energy_level,
       context_after = (case after_event opp of None \<Rightarrow> JNull | Some v \<Rightarrow> v),
       context_before = (case before_event opp of None \<Rightarrow> JNull | Some v \<Rightarrow> v)\<rparr>)"

definition scan_and_propose ::
  "(instant \<Rightarrow> string) \<Rightarrow> event list \<Rightarrow> instant \<Rightarrow> int \<Rightarrow> proposal list" where
  "scan_and_propose dt_isoformat events now min_minutes =
     map (\<lambda>opp. propose_focus_session dt_isoformat opp None None)
       (find_focus_opportunities events now min_minutes)"

subsection \<open>Example values\<close>

text \<open>An opportunity of a given length before a meeting.\<close>

definition example_gap :: "rat \<Rightarrow> opportunity" where
  "example_gap d = \<lparr>opp_start = 0, opp_end = 0, opp_duration = d,
                     after_event = None, before_event = Some (JStr ''standup'')\<rparr>"

text \<open>An event with a title, and the microseconds of a minute.\<close>

definition example_event :: "instant \<Rightarrow> instant \<Rightarrow> string \<Rightarrow> event" where
  "example_event s e title =
     \<lparr>ev_start = s, ev_end = e, ev_summary = JStr title, ev_description = JStr []\<rparr>"

definition minute :: int where
  "minute = 60000000"

text \<open>
  The decoder and the timestamp parser on the few texts used below, and a response of
  the calendar command, already decoded.
\<close>

definition example_loads :: "string \<Rightarrow> json option" where
  "example_loads s = (if s = ''{}'' then Some (JObj []) else None)"

definition example_dt :: "string \<Rightarrow> pydatetime option" where
  "example_dt s =
     (if s = ''2024-01-05T10:00:00'' then Some (Naive (600 * minute))
      else if s = ''2024-01-05T11:00:00'' then Some (Naive (660 * minute))
      else if s = ''2024-01-05T15:00:00+00:00'' then Some (Aware (900 * minute) 0)
      else None)"

definition example_response :: json where
  "example_response =
     JObj [(''items'',
       JArr [JObj [(''summary'', JStr ''review''),
                   (''start'', JObj [(''dateTime'', JStr ''2024-01-05T15:00:00Z'')])],
             JObj [(''summary'', JStr ''all day''), (''start'', JObj [(''date'', JStr ''2024-01-05'')])],
             JObj [(''summary'', JStr ''standup''),
                   (''start'', JObj [(''dateTime'', JStr ''2024-01-05T10:00:00'')]),
                   (''end'', JObj [(''dateTime'', JStr ''2024-01-05T11:00:00'')])]])]"

section \<open>Properties of the streak tracker\<close>

lemma fetch_habit_id: "fetch_habit hid hs = Some h \<Longrightarrow> habit_id h = hid"
  by (auto simp: fetch_habit_def find_Some_iff)

lemma fetch_update_habits:
  "fetch_habit hid hs = Some h \<Longrightarrow> fetch_habit hid (update_habits hid f hs) = Some (f h)"
  if "\<And>x. habit_id (f x) = habit_id x"
  using that unfolding fetch_habit_def update_habits_def
  by (induction hs) (auto split: if_splits)

lemma fetch_update_other:
  "k \<noteq> hid \<Longrightarrow> fetch_habit k (update_habits hid f hs) = fetch_habit k hs"
  if "\<And>x. habit_id (f x) = habit_id x"
  using that unfolding fetch_habit_def update_habits_def
  by (induction hs) (auto split: if_splits)

lemma accepted_set_streak:
  "fetch_habit hid (habits st) = Some h \<Longrightarrow>
   accepted (Inr (True, set_streak f day hid (insert_log hid memo st))) st hid memo
     (h\<lparr>streak_count := f (streak_count h), last_completed := Some day\<rparr>)"
  by (simp add: accepted_def set_streak_def insert_log_def fetch_update_habits)

lemma accepted_set_last:
  "fetch_habit hid (habits st) = Some h \<Longrightarrow>
   accepted (Inr (True, set_last_completed day hid (insert_log hid memo st))) st hid memo
     (h\<lparr>last_completed := Some day\<rparr>)"
  by (simp add: accepted_def set_last_completed_def insert_log_def fetch_update_habits)

lemma example_fetch: "fetch_habit 1 (habits (example_store freq lc)) = Some (example_habit freq lc)"
  by (simp add: example_store_def example_habit_def fetch_habit_def)

lemma example_laws: "iso_laws date_isoformat date_fromisoformat 738890"
  by code_simp

lemma example_today: "date_isoformat 738890 = ''2024-01-05''"
  by code_simp

lemma example_parse:
  "date_fromisoformat ''2024-01-04'' = Some 738889"
  "date_fromisoformat ''2024-01-02'' = Some 738887"
  "date_fromisoformat ''2024-01-09'' = Some 738894"
  by code_simp+

subsection \<open>The daily rule\<close>

text \<open>
  C1. A completion dated \<open>today\<close> of a daily habit that is in the store is accepted and
  writes the row by the daily streak rule: with no last completion the streak becomes 1;
  with the last completion on the day before today the streak grows by one; with an
  earlier last completion the streak is set back to 1. In each case the last completion
  becomes today and the log gains the entry of the call.
\<close>

theorem complete_habit_daily_rule:
  assumes "iso_laws isoformat fromisoformat today"
    and "fetch_habit hid (habits st) = Some h"
    and "goal_frequency h = ''daily''"
  shows "(last_completed h = None \<longrightarrow>
            accepted (complete_habit isoformat fromisoformat today st hid memo) st hid memo
              (h\<lparr>streak_count := 1, last_completed := Some (isoformat today)\<rparr>))
       \<and> (\<forall>s. last_completed h = Some s \<and> fromisoformat s = Some (today - 1) \<longrightarrow>
            accepted (complete_habit isoformat fromisoformat today st hid memo) st hid memo
              (h\<lparr>streak_count := streak_count h + 1, last_completed := Some (isoformat today)\<rparr>))
       \<and> (\<forall>s d. last_completed h = Some s \<and> fromisoformat s = Some d \<and> d < today - 1 \<longrightarrow>
            accepted (complete_habit isoformat fromisoformat today st hid memo) st hid memo
              (h\<lparr>streak_count := 1, last_completed := Some (isoformat today)\<rparr>))"
proof (intro conjI allI impI)
  assume "last_completed h = None"
  then show "accepted (complete_habit isoformat fromisoformat today st hid memo) st hid memo
              (h\<lparr>streak_count := 1, last_completed := Some (isoformat today)\<rparr>)"
    using assms accepted_set_streak [OF assms(2), where f = "\<lambda>n. 1" and day = "isoformat today"
        and memo = memo]
    by (simp add: complete_habit_def Let_def)
next
  fix s assume a: "last_completed h = Some s \<and> fromisoformat s = Some (today - 1)"
  then have "s \<noteq> []" "s \<noteq> isoformat today"
    using assms(1) by (auto simp: iso_laws_def)
  then show "accepted (complete_habit isoformat fromisoformat today st hid memo) st hid memo
              (h\<lparr>streak_count := streak_count h + 1, last_completed := Some (isoformat today)\<rparr>)"
    using a assms accepted_set_streak [OF assms(2), where f = "\<lambda>n. n + 1"
        and day = "isoformat today" and memo = memo]
    by (simp add: complete_habit_def Let_def)
next
  fix s d assume a: "last_completed h = Some s \<and> fromisoformat s = Some d \<and> d < today - 1"
  then have "s \<noteq> []" "s \<noteq> isoformat today"
    using assms(1) by (auto simp: iso_laws_def)
  then show "accepted (complete_habit isoformat fromisoformat today st hid memo) st hid memo
              (h\<lparr>streak_count := 1, last_completed := Some (isoformat today)\<rparr>)"
    using a assms accepted_set_streak [OF assms(2), where f = "\<lambda>n. 1" and day = "isoformat today"
        and memo = memo]
    by (simp add: complete_habit_def Let_def)
qed

text \<open>
  On 2024-01-05 the example habit, with a streak of 3: never completed it gets streak 1,
  last completed on 2024-01-04 it gets streak 4, last completed on 2024-01-02 it is set
  back to 1.
\<close>

theorem complete_habit_daily_rule_witness:
  "accepted (complete_habit date_isoformat date_fromisoformat 738890
       (example_store ''daily'' None) 1 ''gym'') (example_store ''daily'' None) 1 ''gym''
     (example_habit ''daily'' (Some ''2024-01-05'') \<lparr>streak_count := 1\<rparr>)
   \<and> accepted (complete_habit date_isoformat date_fromisoformat 738890
       (example_store ''daily'' (Some ''2024-01-04'')) 1 ''gym'')
       (example_store ''daily'' (Some ''2024-01-04'')) 1 ''gym''
     (example_habit ''daily'' (Some ''2024-01-05'') \<lparr>streak_count := 4\<rparr>)
   \<and> accepted (complete_habit date_isoformat date_fromisoformat 738890
       (example_store ''daily'' (Some ''2024-01-02'')) 1 ''gym'')
       (example_store ''daily'' (Some ''2024-01-02'')) 1 ''gym''
     (example_habit ''daily'' (Some ''2024-01-05'') \<lparr>streak_count := 1\<rparr>)"
  using
    complete_habit_daily_rule [OF example_laws example_fetch, where freq1 = "''daily''"
      and lc1 = None and memo = "''gym''"]
    complete_habit_daily_rule [OF example_laws example_fetch, where freq1 = "''daily''"
      and lc1 = "Some ''2024-01-04''" and memo = "''gym''"]
    complete_habit_daily_rule [OF example_laws example_fetch, where freq1 = "''daily''"
      and lc1 = "Some ''2024-01-02''" and memo = "''gym''"]
  by (simp add: example_habit_def example_today example_parse)

subsection \<open>Weekly and monthly habits\<close>

text \<open>
  C6. Every completion of a weekly or monthly habit that is in the store is accepted,
  whatever its last completion was: the log gains the entry, the last completion becomes
  today, and the rest of the row, the streak count included, stays as it was.
\<close>

theorem complete_habit_weekly_monthly:
  assumes "fetch_habit hid (habits st) = Some h"
    and "goal_frequency h = ''weekly'' \<or> goal_frequency h = ''monthly''"
  shows "accepted (complete_habit isoformat fromisoformat today st hid memo) st hid memo
           (h\<lparr>last_completed := Some (isoformat today)\<rparr>)"
  using assms accepted_set_last [OF assms(1), where day = "isoformat today" and memo = memo]
  by (auto simp: complete_habit_def Let_def)

text \<open>A weekly habit completed twice on 2024-01-05: the second one is logged as well.\<close>

theorem complete_habit_weekly_monthly_witness:
  "accepted (complete_habit date_isoformat date_fromisoformat 738890
       (example_store ''weekly'' (Some ''2024-01-05'')) 1 ''gym'')
     (example_store ''weekly'' (Some ''2024-01-05'')) 1 ''gym''
     (example_habit ''weekly'' (Some ''2024-01-05''))
   \<and> streak_count (example_habit ''weekly'' (Some ''2024-01-05'')) = 3"
  using complete_habit_weekly_monthly [OF example_fetch, where freq1 = "''weekly''"
      and lc1 = "Some ''2024-01-05''" and isoformat = date_isoformat and today = 738890
      and fromisoformat = date_fromisoformat and memo = "''gym''"]
  by (simp add: example_habit_def example_today)

subsection \<open>A second completion on the same day\<close>

lemma complete_habit_log:
  "complete_habit isoformat fromisoformat today st0 hid memo = Inr (True, st) \<Longrightarrow>
   habit_log st = habit_log st0 @ [\<lparr>log_habit_id = hid, log_notes = memo\<rparr>]"
  by (auto simp: complete_habit_def Let_def insert_log_def set_streak_def set_last_completed_def
      split: option.splits if_splits)

lemma rejected_today:
  assumes "fetch_habit hid (habits st) = Some h"
    and "goal_frequency h = ''daily''"
    and "last_completed h = Some (isoformat today)"
  shows "complete_habit isoformat fromisoformat today st hid memo = Inr (False, st)"
  using assms by (simp add: complete_habit_def)

lemma rejected_seq:
  assumes "fetch_habit hid (habits st) = Some h"
    and "goal_frequency h = ''daily''"
    and "last_completed h = Some (isoformat today)"
  shows "complete_habit_seq isoformat fromisoformat today st hid ms =
           Inr (replicate (length ms) False, st)"
  by (induction ms) (simp_all add: rejected_today [where isoformat = isoformat and today = today, OF assms])

text \<open>
  C3. A completion dated today of a daily habit whose last completion is today is
  rejected: the method returns \<open>False\<close> and the store, log and row alike, is as before.
  So is every further completion on that day, and when the store is the one left by an
  accepted first completion, the whole day has added exactly that one entry to the log.
\<close>

theorem complete_habit_same_day_rejected:
  assumes "fetch_habit hid (habits st) = Some h"
    and "goal_frequency h = ''daily''"
    and "last_completed h = Some (isoformat today)"
  shows "complete_habit isoformat fromisoformat today st hid memo = Inr (False, st)
       \<and> complete_habit_seq isoformat fromisoformat today st hid ms =
           Inr (replicate (length ms) False, st)
       \<and> (\<forall>st0 m0. complete_habit isoformat fromisoformat today st0 hid m0 = Inr (True, st) \<longrightarrow>
            complete_habit_seq isoformat fromisoformat today st0 hid (m0 # ms) =
              Inr (True # replicate (length ms) False, st)
            \<and> habit_log st = habit_log st0 @ [\<lparr>log_habit_id = hid, log_notes = m0\<rparr>])"
  using rejected_today [where isoformat = isoformat and today = today, OF assms]
    rejected_seq [where isoformat = isoformat and today = today, OF assms]
  by (simp add: complete_habit_log)

text \<open>
  Three completions on 2024-01-05 of the example habit last completed the day before:
  the first is accepted, the other two are rejected, and the log holds one entry.
\<close>

theorem complete_habit_same_day_rejected_witness:
  "complete_habit date_isoformat date_fromisoformat 738890
      (example_store ''daily'' (Some ''2024-01-04'')) 1 ''gym'' =
     Inr (True, \<lparr>habits = [example_habit ''daily'' (Some ''2024-01-05'') \<lparr>streak_count := 4\<rparr>],
                 habit_log = [\<lparr>log_habit_id = 1, log_notes = ''gym''\<rparr>]\<rparr>)
   \<and> complete_habit date_isoformat date_fromisoformat 738890
      \<lparr>habits = [example_habit ''daily'' (Some ''2024-01-05'') \<lparr>streak_count := 4\<rparr>],
       habit_log = [\<lparr>log_habit_id = 1, log_notes = ''gym''\<rparr>]\<rparr> 1 ''again'' =
     Inr (False, \<lparr>habits = [example_habit ''daily'' (Some ''2024-01-05'') \<lparr>streak_count := 4\<rparr>],
                  habit_log = [\<lparr>log_habit_id = 1, log_notes = ''gym''\<rparr>]\<rparr>)
   \<and> complete_habit_seq date_isoformat date_fromisoformat 738890
      (example_store ''daily'' (Some ''2024-01-04'')) 1 [''gym'', ''again'', ''and again''] =
     Inr ([True, False, False],
          \<lparr>habits = [example_habit ''daily'' (Some ''2024-01-05'') \<lparr>streak_count := 4\<rparr>],
           habit_log = [\<lparr>log_habit_id = 1, log_notes = ''gym''\<rparr>]\<rparr>)"
proof -
  let ?st = "\<lparr>habits = [example_habit ''daily'' (Some ''2024-01-05'') \<lparr>streak_count := 4\<rparr>],
              habit_log = [\<lparr>log_habit_id = 1, log_notes = ''gym''\<rparr>]\<rparr>"
  have first: "complete_habit date_isoformat date_fromisoformat 738890
      (example_store ''daily'' (Some ''2024-01-04'')) 1 ''gym'' = Inr (True, ?st)"
    by code_simp
  have row: "fetch_habit 1 (habits ?st) = Some (example_habit ''daily'' (Some ''2024-01-05'') \<lparr>streak_count := 4\<rparr>)"
    by (simp add: fetch_habit_def example_habit_def)
  have "goal_frequency (example_habit ''daily'' (Some ''2024-01-05'') \<lparr>streak_count := 4\<rparr>) = ''daily''"
    "last_completed (example_habit ''daily'' (Some ''2024-01-05'') \<lparr>streak_count := 4\<rparr>)
       = Some (date_isoformat 738890)"
    by (simp_all add: example_habit_def example_today)
  from complete_habit_same_day_rejected [where isoformat = date_isoformat and today = 738890
      and fromisoformat = date_fromisoformat and memo = "''again''"
      and ms = "[''again'', ''and again'']", OF row this] first
  show ?thesis
    by (simp del: complete_habit_seq.simps)
qed

subsection \<open>A last completion after today\<close>

text \<open>
  C10. When the stored last completion of a daily habit reads as a date after today, a
  completion is accepted and logged, and the habit row is not written at all: the test
  for a same-day duplicate does not match, and neither update branch covers a later date.
\<close>

theorem complete_habit_future_date:
  assumes "iso_laws isoformat fromisoformat today"
    and "fetch_habit hid (habits st) = Some h"
    and "goal_frequency h = ''daily''"
    and "last_completed h = Some s"
    and "fromisoformat s = Some d"
    and "d > today"
  shows "complete_habit isoformat fromisoformat today st hid memo =
           Inr (True, st\<lparr>habit_log := habit_log st @ [\<lparr>log_habit_id = hid, log_notes = memo\<rparr>]\<rparr>)"
proof -
  have "s \<noteq> []" "s \<noteq> isoformat today"
    using assms(1,5,6) by (auto simp: iso_laws_def)
  then show ?thesis
    using assms by (simp add: complete_habit_def Let_def insert_log_def)
qed

text \<open>On 2024-01-05, with a last completion stored as 2024-01-09.\<close>

theorem complete_habit_future_date_witness:
  "complete_habit date_isoformat date_fromisoformat 738890
      (example_store ''daily'' (Some ''2024-01-09'')) 1 ''gym'' =
     Inr (True, \<lparr>habits = [example_habit ''daily'' (Some ''2024-01-09'')],
                 habit_log = [\<lparr>log_habit_id = 1, log_notes = ''gym''\<rparr>]\<rparr>)"
  using complete_habit_future_date [OF example_laws example_fetch, where freq1 = "''daily''"
      and lc1 = "Some ''2024-01-09''" and s = "''2024-01-09''" and d = 738894 and memo = "''gym''"]
  by (simp add: example_habit_def example_parse example_store_def)


subsection \<open>Reminders\<close>

lemma remind_row_fields:
  assumes "remind_row isoformat fromisoformat today h = Inr (Some r)"
  shows "r_habit_id r = habit_id h \<and> r_name r = habit_name h \<and> r_streak_count r = streak_count h
       \<and> r_message r = reminder_message (habit_name h) (streak_count h) (r_days_since r)
       \<and> r_days_since r =
           (case last_completed h of
              None \<Rightarrow> None
            | Some s \<Rightarrow> if s = [] then None else map_option (\<lambda>d. today - d) (fromisoformat s))"
  using assms by (auto simp: remind_row_def split: if_splits option.splits)

lemma remind_row_skip:
  "remind_row isoformat fromisoformat today h = Inr None \<Longrightarrow>
   last_completed h = Some (isoformat today)"
  by (auto simp: remind_row_def split: if_splits option.splits)

lemma remind_rows_mem:
  assumes "remind_rows isoformat fromisoformat today rows = Inr rs"
    and "h \<in> set rows"
    and "last_completed h \<noteq> Some (isoformat today)"
  shows "\<exists>r \<in> set rs. remind_row isoformat fromisoformat today h = Inr (Some r)"
  using assms
proof (induction rows arbitrary: rs)
  case Nil
  then show ?case by simp
next
  case (Cons row rows)
  show ?case
  proof (cases "remind_row isoformat fromisoformat today row")
    case (Inl e)
    with Cons.prems show ?thesis by simp
  next
    case (Inr x)
    show ?thesis
    proof (cases x)
      case None
      with Inr Cons show ?thesis
        by (auto dest: remind_row_skip)
    next
      case (Some r0)
      with Inr Cons.prems obtain rs0 where
        rs0: "remind_rows isoformat fromisoformat today rows = Inr rs0" "rs = r0 # rs0"
        by (auto split: sum.splits)
      show ?thesis
      proof (cases "h = row")
        case True
        with Inr Some rs0 show ?thesis by simp
      next
        case False
        with Cons.prems have "h \<in> set rows" by simp
        from Cons.IH [OF rs0(1) this Cons.prems(3)] rs0 show ?thesis by auto
      qed
    qed
  qed
qed

text \<open>
  The call returns a list exactly when every selected row is readable; the list then
  holds one reminder for each row that is due, in the order of the rows.
\<close>

lemma remind_row_readable:
  "(\<exists>x. remind_row isoformat fromisoformat today h = Inr x)
     \<longleftrightarrow> readable isoformat fromisoformat today h"
  by (auto simp: remind_row_def readable_def split: option.splits if_splits)

lemma remind_row_None:
  "remind_row isoformat fromisoformat today h = Inr None
     \<longleftrightarrow> last_completed h = Some (isoformat today)"
  by (auto simp: remind_row_def split: option.splits if_splits)

lemma remind_rows_returns:
  "(\<exists>rs. remind_rows isoformat fromisoformat today rows = Inr rs)
     \<longleftrightarrow> (\<forall>h \<in> set rows. readable isoformat fromisoformat today h)"
proof (induction rows)
  case Nil
  then show ?case by simp
next
  case (Cons row rows)
  show ?case
  proof (cases "remind_row isoformat fromisoformat today row")
    case (Inl e)
    then have "\<not> readable isoformat fromisoformat today row"
      using remind_row_readable [of isoformat fromisoformat today row] by auto
    with Inl show ?thesis by simp
  next
    case (Inr x)
    then have "readable isoformat fromisoformat today row"
      using remind_row_readable [of isoformat fromisoformat today row] by auto
    with Inr Cons.IH show ?thesis
      by (cases x) (auto split: sum.splits)
  qed
qed

lemma remind_rows_ids:
  "remind_rows isoformat fromisoformat today rows = Inr rs \<Longrightarrow>
   map r_habit_id rs =
     map habit_id (filter (\<lambda>h. last_completed h \<noteq> Some (isoformat today)) rows)"
proof (induction rows arbitrary: rs)
  case Nil
  then show ?case by simp
next
  case (Cons row rows)
  show ?case
  proof (cases "remind_row isoformat fromisoformat today row")
    case (Inl e)
    with Cons.prems show ?thesis by simp
  next
    case (Inr x)
    show ?thesis
    proof (cases x)
      case None
      with Inr have "last_completed row = Some (isoformat today)"
        by (simp add: remind_row_None)
      with Inr None Cons show ?thesis
        by simp
    next
      case (Some r0)
      with Inr Cons.prems obtain rs0 where
        rs0: "remind_rows isoformat fromisoformat today rows = Inr rs0" "rs = r0 # rs0"
        by (auto split: sum.splits)
      have "last_completed row \<noteq> Some (isoformat today)"
        using Inr Some remind_row_None [of isoformat fromisoformat today row] by auto
      moreover have "r_habit_id r0 = habit_id row"
        using Inr Some remind_row_fields by blast
      ultimately show ?thesis
        using Cons.IH [OF rs0(1)] rs0(2) by simp
    qed
  qed
qed

text \<open>
  C7. When every active daily habit has a last completion that the loop can read, the
  call returns, with one reminder for each active daily habit whose last completion is
  not today, in order. The message of that reminder depends on the days since the last
  completion and the streak count only (the name is put into the chosen sentence): no
  last completion gives the first-step sentence; one day gives the streak sentence when
  the streak is above 1 and the plain encouragement otherwise; two days give "no
  worries"; three to seven days give "jump back in"; more than seven give "waiting for
  you". As the message is the value of the function \<open>reminder_message\<close> at these
  arguments, equal arguments give equal messages.
\<close>

theorem reminder_tiers:
  assumes "\<forall>h \<in> set (habits st). active h = 1 \<and> goal_frequency h = ''daily'' \<longrightarrow>
             readable isoformat fromisoformat today h"
  shows "\<exists>rs. get_habit_reminders isoformat fromisoformat today st = Inr rs
       \<and> map r_habit_id rs = map habit_id (filter (due isoformat today) (habits st))
       \<and> (\<forall>h \<in> set (habits st). due isoformat today h \<longrightarrow>
           (\<exists>r \<in> set rs.
              r_habit_id r = habit_id h \<and> r_name r = habit_name h
            \<and> r_streak_count r = streak_count h
            \<and> r_days_since r =
                (case last_completed h of
                   None \<Rightarrow> None
                 | Some s \<Rightarrow> if s = [] then None else map_option (\<lambda>d. today - d) (fromisoformat s))
            \<and> r_message r = reminder_message (r_name r) (r_streak_count r) (r_days_since r)
            \<and> (r_days_since r = None \<longrightarrow>
                 r_message r = ''Ready to start '' @ quoted (r_name r) @ ''? First step is the hardest!'')
            \<and> (r_days_since r = Some 1 \<and> r_streak_count r > 1 \<longrightarrow>
                 r_message r = quoted (r_name r) @ '' - keep that '' @ str_int (r_streak_count r)
                                 @ ''-day streak going! '' @ fire)
            \<and> (r_days_since r = Some 1 \<and> r_streak_count r \<le> 1 \<longrightarrow>
                 r_message r = ''Time for '' @ quoted (r_name r) @ '' - you'' @ [CHR 0x27] @ ''ve got this!'')
            \<and> (r_days_since r = Some 2 \<longrightarrow>
                 r_message r = quoted (r_name r) @ '' - no worries, just pick it back up when ready.'')
            \<and> (\<forall>n. r_days_since r = Some n \<and> 3 \<le> n \<and> n \<le> 7 \<longrightarrow>
                 r_message r = quoted (r_name r) @ '' - when you'' @ [CHR 0x27]
                                 @ ''re ready to jump back in.'')
            \<and> (\<forall>n. r_days_since r = Some n \<and> n > 7 \<longrightarrow>
                 r_message r = quoted (r_name r) @ '' - waiting for you when inspiration strikes.'')))"
proof -
  let ?rows = "filter (\<lambda>h. active h = 1 \<and> goal_frequency h = ''daily'') (habits st)"
  have "\<forall>h \<in> set ?rows. readable isoformat fromisoformat today h"
    using assms by simp
  then obtain rs where rs: "remind_rows isoformat fromisoformat today ?rows = Inr rs"
    using remind_rows_returns [of isoformat fromisoformat today ?rows] by blast
  then have ret: "get_habit_reminders isoformat fromisoformat today st = Inr rs"
    by (simp add: get_habit_reminders_def)
  have "filter (\<lambda>h. last_completed h \<noteq> Some (isoformat today)) ?rows
          = filter (due isoformat today) (habits st)"
    by (auto simp: due_def intro!: filter_cong)
  with remind_rows_ids [OF rs]
  have ids: "map r_habit_id rs = map habit_id (filter (due isoformat today) (habits st))"
    by simp
  have each: "\<exists>r \<in> set rs.
              r_habit_id r = habit_id h \<and> r_name r = habit_name h
            \<and> r_streak_count r = streak_count h
            \<and> r_days_since r =
                (case last_completed h of
                   None \<Rightarrow> None
                 | Some s \<Rightarrow> if s = [] then None else map_option (\<lambda>d. today - d) (fromisoformat s))
            \<and> r_message r = reminder_message (r_name r) (r_streak_count r) (r_days_since r)
            \<and> (r_days_since r = None \<longrightarrow>
                 r_message r = ''Ready to start '' @ quoted (r_name r) @ ''? First step is the hardest!'')
            \<and> (r_days_since r = Some 1 \<and> r_streak_count r > 1 \<longrightarrow>
                 r_message r = quoted (r_name r) @ '' - keep that '' @ str_int (r_streak_count r)
                                 @ ''-day streak going! '' @ fire)
            \<and> (r_days_since r = Some 1 \<and> r_streak_count r \<le> 1 \<longrightarrow>
                 r_message r = ''Time for '' @ quoted (r_name r) @ '' - you'' @ [CHR 0x27] @ ''ve got this!'')
            \<and> (r_days_since r = Some 2 \<longrightarrow>
                 r_message r = quoted (r_name r) @ '' - no worries, just pick it back up when ready.'')
            \<and> (\<forall>n. r_days_since r = Some n \<and> 3 \<le> n \<and> n \<le> 7 \<longrightarrow>
                 r_message r = quoted (r_name r) @ '' - when you'' @ [CHR 0x27]
                                 @ ''re ready to jump back in.'')
            \<and> (\<forall>n. r_days_since r = Some n \<and> n > 7 \<longrightarrow>
                 r_message r = quoted (r_name r) @ '' - waiting for you when inspiration strikes.'')"
    if h: "h \<in> set (habits st)" "due isoformat today h" for h
  proof -
    have "h \<in> set ?rows" "last_completed h \<noteq> Some (isoformat today)"
      using h by (simp_all add: due_def)
    from remind_rows_mem [OF rs this]
    obtain r where r: "r \<in> set rs" "remind_row isoformat fromisoformat today h = Inr (Some r)"
      by blast
    note f = remind_row_fields [OF r(2)]
    have m: "r_message r = reminder_message (r_name r) (r_streak_count r) (r_days_since r)"
      using f by simp
    show ?thesis
    proof (rule bexI [OF _ r(1)], intro conjI allI impI)
      show "r_message r = reminder_message (r_name r) (r_streak_count r) (r_days_since r)"
        by (rule m)
    qed (use f in \<open>auto simp: m reminder_message_def\<close>)
  qed
  from ret ids each show ?thesis by blast
qed

text \<open>
  The four example habits on 2024-01-05: the two that are due get their reminders, the
  one completed today and the weekly one get none.
\<close>

lemma example_habits_readable:
  "\<forall>h \<in> set (habits example_habits). active h = 1 \<and> goal_frequency h = ''daily'' \<longrightarrow>
     readable date_isoformat date_fromisoformat 738890 h"
  by (simp add: example_habits_def example_habit_def readable_def example_parse example_today)

theorem reminder_tiers_witness:
  "get_habit_reminders date_isoformat date_fromisoformat 738890 example_habits =
     Inr [\<lparr>r_habit_id = 1, r_name = ''exercise'', r_streak_count = 3, r_days_since = Some 1,
           r_message = quoted ''exercise'' @ '' - keep that 3-day streak going! '' @ fire\<rparr>,
          \<lparr>r_habit_id = 2, r_name = ''reading'', r_streak_count = 0, r_days_since = None,
           r_message = ''Ready to start '' @ quoted ''reading'' @ ''? First step is the hardest!''\<rparr>]"
proof -
  have g: "\<exists>m1 m2. get_habit_reminders date_isoformat date_fromisoformat 738890 example_habits =
     Inr [\<lparr>r_habit_id = 1, r_name = ''exercise'', r_streak_count = 3, r_days_since = Some 1,
           r_message = m1\<rparr>,
          \<lparr>r_habit_id = 2, r_name = ''reading'', r_streak_count = 0, r_days_since = None,
           r_message = m2\<rparr>]"
    by (simp add: get_habit_reminders_def example_habits_def example_habit_def remind_row_def
        example_today example_parse)
  then obtain m1 m2 where m: "get_habit_reminders date_isoformat date_fromisoformat 738890 example_habits =
     Inr [\<lparr>r_habit_id = 1, r_name = ''exercise'', r_streak_count = 3, r_days_since = Some 1,
           r_message = m1\<rparr>,
          \<lparr>r_habit_id = 2, r_name = ''reading'', r_streak_count = 0, r_days_since = None,
           r_message = m2\<rparr>]" by blast
  have s3: "str_int 3 = ''3''" by code_simp
  from reminder_tiers [OF example_habits_readable] m
  have "m1 = quoted ''exercise'' @ '' - keep that 3-day streak going! '' @ fire
      \<and> m2 = ''Ready to start '' @ quoted ''reading'' @ ''? First step is the hardest!''"
    by (auto simp add: example_habits_def example_habit_def example_today due_def s3)
  with m show ?thesis by simp
qed

section \<open>Properties of the focus sessions\<close>

subsection \<open>The suggested timer\<close>

lemma str_int_neg: "i < 0 \<Longrightarrow> hd (str_int i @ s) = CHR ''-''"
  by (simp add: str_int_def)

lemma str_int_0: "str_int 0 = ''0''"
  by (simp add: str_int_def str_nat.simps)

lemma propose_fields:
  "duration_minutes (propose_focus_session f opp task en) = py_int (opp_duration opp)"
  "suggested_timer (propose_focus_session f opp task en) = timer_for (py_int (opp_duration opp))"
  by (simp_all add: propose_focus_session_def Let_def)

lemma py_int_numeral:
  "py_int 239 = 239" "py_int 240 = 240" "py_int 150 = 150" "py_int 15 = 15" "py_int 10 = 10"
  "py_int 300 = 300" "py_int (2399 / 10) = 239"
  by (simp_all add: py_int_def floor_eq_iff)

lemma str_int_m5: "str_int (- 5) = ''-5''"
  by (simp add: str_int_def str_nat.simps)

text \<open>
  C2. The proposal's \<open>duration_minutes\<close> is the duration of the gap cut to an integer
  (the duration itself when it is a whole number of minutes), and the suggested timer
  follows from it by the tiers, the first match from the top: 240 and more give the deep
  work block, 180 to 239 the three pomodoros, 120 to 179 the focus block, and anything
  below gives that number less 15 minutes of focus session, which is 0 at 15 and
  negative below 15.
\<close>

theorem propose_timer_tiers:
  "duration_minutes (propose_focus_session f opp task en) = py_int (opp_duration opp)
   \<and> (\<forall>n. opp_duration opp = of_int n \<longrightarrow>
         duration_minutes (propose_focus_session f opp task en) = n)
   \<and> (240 \<le> py_int (opp_duration opp) \<longrightarrow>
      suggested_timer (propose_focus_session f opp task en) = ''120 min (deep work block)'')
   \<and> (180 \<le> py_int (opp_duration opp) \<and> py_int (opp_duration opp) < 240 \<longrightarrow>
      suggested_timer (propose_focus_session f opp task en) = ''90 min (3 pomodoros + long break)'')
   \<and> (120 \<le> py_int (opp_duration opp) \<and> py_int (opp_duration opp) < 180 \<longrightarrow>
      suggested_timer (propose_focus_session f opp task en) = ''90 min (focus block)'')
   \<and> (py_int (opp_duration opp) < 120 \<longrightarrow>
      suggested_timer (propose_focus_session f opp task en) =
        str_int (py_int (opp_duration opp) - 15) @ '' min (focus session)'')
   \<and> (py_int (opp_duration opp) = 15 \<longrightarrow>
      suggested_timer (propose_focus_session f opp task en) = ''0 min (focus session)'')
   \<and> (py_int (opp_duration opp) < 15 \<longrightarrow>
      hd (suggested_timer (propose_focus_session f opp task en)) = CHR ''-'')"
proof -
  have "py_int (of_int n) = n" for n
    by (simp add: py_int_def)
  then show ?thesis
    by (simp add: propose_fields timer_for_def str_int_0 str_int_neg)
qed

text \<open>Gaps of 239, 240, 300, 150, 15 and 10 minutes.\<close>

theorem propose_timer_tiers_witness:
  "suggested_timer (propose_focus_session (\<lambda>t. []) (example_gap 239) None None)
     = ''90 min (3 pomodoros + long break)''
   \<and> suggested_timer (propose_focus_session (\<lambda>t. []) (example_gap 240) None None)
     = ''120 min (deep work block)''
   \<and> suggested_timer (propose_focus_session (\<lambda>t. []) (example_gap 300) None None)
     = ''120 min (deep work block)''
   \<and> duration_minutes (propose_focus_session (\<lambda>t. []) (example_gap 300) None None) = 300
   \<and> suggested_timer (propose_focus_session (\<lambda>t. []) (example_gap 150) None None)
     = ''90 min (focus block)''
   \<and> suggested_timer (propose_focus_session (\<lambda>t. []) (example_gap 15) None None)
     = ''0 min (focus session)''
   \<and> suggested_timer (propose_focus_session (\<lambda>t. []) (example_gap 10) None None)
     = ''-5 min (focus session)''"
  using propose_timer_tiers [of "\<lambda>t. []" "example_gap 239" None None]
    propose_timer_tiers [of "\<lambda>t. []" "example_gap 240" None None]
    propose_timer_tiers [of "\<lambda>t. []" "example_gap 300" None None]
    propose_timer_tiers [of "\<lambda>t. []" "example_gap 150" None None]
    propose_timer_tiers [of "\<lambda>t. []" "example_gap 15" None None]
    propose_timer_tiers [of "\<lambda>t. []" "example_gap 10" None None]
  by (simp add: example_gap_def py_int_numeral str_int_m5 str_int_0)

text \<open>
  C9. The duration of the opportunity is cut to an integer towards zero before the tier
  is chosen, and that integer is the proposal's \<open>duration_minutes\<close>; so any duration
  from 239 up to, but not including, 240 minutes is proposed as 239 minutes with the
  three pomodoros, not the deep work block.
\<close>

theorem propose_truncates:
  "duration_minutes (propose_focus_session f opp task en) = py_int (opp_duration opp)
   \<and> suggested_timer (propose_focus_session f opp task en) = timer_for (py_int (opp_duration opp))
   \<and> (0 \<le> opp_duration opp \<longrightarrow>
        of_int (py_int (opp_duration opp)) \<le> opp_duration opp
        \<and> opp_duration opp < of_int (py_int (opp_duration opp)) + 1)
   \<and> (opp_duration opp < 0 \<longrightarrow>
        opp_duration opp \<le> of_int (py_int (opp_duration opp))
        \<and> of_int (py_int (opp_duration opp)) - 1 < opp_duration opp)
   \<and> (239 \<le> opp_duration opp \<and> opp_duration opp < 240 \<longrightarrow>
        duration_minutes (propose_focus_session f opp task en) = 239
        \<and> suggested_timer (propose_focus_session f opp task en) = ''90 min (3 pomodoros + long break)'')"
proof -
  have "py_int (opp_duration opp) = 239" if "239 \<le> opp_duration opp \<and> opp_duration opp < 240"
    using that by (simp add: py_int_def floor_eq_iff)
  then show ?thesis
    by (auto simp: propose_fields py_int_def timer_for_def) linarith+
qed

text \<open>A gap of 239.9 minutes.\<close>

theorem propose_truncates_witness:
  "duration_minutes (propose_focus_session (\<lambda>t. []) (example_gap (2399 / 10)) None None) = 239
   \<and> suggested_timer (propose_focus_session (\<lambda>t. []) (example_gap (2399 / 10)) None None)
       = ''90 min (3 pomodoros + long break)''"
  using propose_truncates [of "\<lambda>t. []" "example_gap (2399 / 10)" None None]
  by (simp add: example_gap_def propose_fields py_int_numeral timer_for_def)

subsection \<open>Gaps\<close>

lemma between_events_after:
  "g \<in> set (between_events es m) \<Longrightarrow> after_event g \<noteq> None"
  by (induction es m rule: between_events.induct) (auto split: if_splits)

lemma between_events_duration:
  "g \<in> set (between_events es m) \<Longrightarrow>
   opp_duration g = minutes_between (opp_start g) (opp_end g) \<and> of_int m \<le> opp_duration g"
  by (induction es m rule: between_events.induct) (auto split: if_splits)

lemma minutes_between_pos: "0 < minutes_between a b \<longleftrightarrow> a < b"
  by (simp add: minutes_between_def)

text \<open>
  C4. With a first event that starts after \<open>now\<close>, a gap without a preceding label
  (the gaps between events all carry one) is found exactly when the minutes from \<open>now\<close>
  to that start reach \<open>min_minutes\<close>; it is then the first opportunity, it runs from
  \<open>now\<close> to the start of the first event, and its following label is that event's
  summary.
\<close>

theorem leading_gap_iff:
  assumes "events = e # es"
    and "now < ev_start e"
  shows "((\<exists>g \<in> set (find_focus_opportunities events now m). after_event g = None)
            \<longleftrightarrow> of_int m \<le> minutes_between now (ev_start e))
       \<and> (\<forall>g \<in> set (find_focus_opportunities events now m). after_event g = None \<longrightarrow>
            g = \<lparr>opp_start = now, opp_end = ev_start e,
                 opp_duration = minutes_between now (ev_start e),
                 after_event = None, before_event = Some (ev_summary e)\<rparr>)
       \<and> (of_int m \<le> minutes_between now (ev_start e) \<longrightarrow>
            find_focus_opportunities events now m =
              \<lparr>opp_start = now, opp_end = ev_start e,
               opp_duration = minutes_between now (ev_start e),
               after_event = None, before_event = Some (ev_summary e)\<rparr>
              # between_events events m)
       \<and> minutes_between now (ev_start e) = of_int (ev_start e - now) / 60000000"
  using assms
  by (auto simp: find_focus_opportunities_def minutes_between_def dest: between_events_after)

text \<open>With a threshold of 120 minutes: a first event 150 minutes ahead, and one 90 minutes ahead.\<close>

theorem leading_gap_iff_witness:
  "find_focus_opportunities [example_event (150 * minute) (180 * minute) ''standup''] 0 120 =
     [\<lparr>opp_start = 0, opp_end = 150 * minute, opp_duration = 150,
       after_event = None, before_event = Some (JStr ''standup'')\<rparr>]
   \<and> find_focus_opportunities [example_event (90 * minute) (180 * minute) ''standup''] 0 120 = []"
proof -
  have a: "(0 :: int) < ev_start (example_event (150 * minute) (180 * minute) ''standup'')"
    and b: "(0 :: int) < ev_start (example_event (90 * minute) (180 * minute) ''standup'')"
    by (simp_all add: example_event_def minute_def)
  have c: "minutes_between 0 (150 * minute) = 150" "minutes_between 0 (90 * minute) = 90"
    by (simp_all add: minutes_between_def minute_def)
  from leading_gap_iff [OF refl a, where m = 120] leading_gap_iff [OF refl b, where m = 120] c
  show ?thesis
    by (simp add: example_event_def find_focus_opportunities_def)
qed

text \<open>
  C5 as stated, for every \<open>min_minutes\<close>, does not hold: the only test on a pair of
  events is \<open>duration >= min_minutes\<close>, so with a threshold of 0 an event that starts
  when the one before it ends gives an opportunity of 0 minutes.
\<close>

theorem overlap_gap_counterexample:
  "find_focus_opportunities
     [example_event 0 (60 * minute) ''standup'', example_event (60 * minute) (90 * minute) ''review'']
     0 0
   = [\<lparr>opp_start = 60 * minute, opp_end = 60 * minute, opp_duration = 0,
       after_event = Some (JStr ''standup''), before_event = Some (JStr ''review'')\<rparr>]"
  by (simp add: find_focus_opportunities_def example_event_def minutes_between_def)

text \<open>
  C5, for a positive \<open>min_minutes\<close>. Every opportunity found has a positive duration,
  of at least \<open>min_minutes\<close>, and ends after it starts; no opportunity spans a pair of
  neighbouring events of which the second starts no later than the first ends; and the
  pass of the loop over such a pair adds nothing.
\<close>

theorem no_gap_for_overlap:
  assumes "0 < m"
  shows "(\<forall>g \<in> set (find_focus_opportunities events now m).
            0 < opp_duration g \<and> opp_start g < opp_end g \<and> of_int m \<le> opp_duration g)
       \<and> (\<forall>i. Suc i < length events \<and> ev_start (events ! Suc i) \<le> ev_end (events ! i) \<longrightarrow>
            \<not> (\<exists>g \<in> set (find_focus_opportunities events now m).
                  opp_start g = ev_end (events ! i) \<and> opp_end g = ev_start (events ! Suc i)))
       \<and> (\<forall>a b es. ev_start b \<le> ev_end a \<longrightarrow>
            between_events (a # b # es) m = between_events (b # es) m)"
proof -
  have pos: "0 < opp_duration g \<and> opp_start g < opp_end g \<and> of_int m \<le> opp_duration g"
    if "g \<in> set (find_focus_opportunities events now m)" for g
  proof -
    from that consider
      "g \<in> set (between_events events m)"
      | e es where "events = e # es" "now < ev_start e" "of_int m \<le> minutes_between now (ev_start e)"
        "g = \<lparr>opp_start = now, opp_end = ev_start e,
               opp_duration = minutes_between now (ev_start e),
               after_event = None, before_event = Some (ev_summary e)\<rparr>"
      by (auto simp: find_focus_opportunities_def split: list.splits if_splits)
    then have d: "opp_duration g = minutes_between (opp_start g) (opp_end g)
                  \<and> (of_int m :: rat) \<le> opp_duration g"
      by cases (auto dest: between_events_duration)
    moreover have "(0 :: rat) < of_int m" using assms by simp
    ultimately have "0 < opp_duration g" by linarith
    with d show ?thesis by (simp add: minutes_between_pos)
  qed
  have third: "between_events (a # b # es) m = between_events (b # es) m"
    if "ev_start b \<le> ev_end a" for a b es
  proof -
    have "minutes_between (ev_end a) (ev_start b) \<le> 0"
      using that by (simp add: minutes_between_def divide_le_0_iff)
    moreover have "(0 :: rat) < of_int m" using assms by simp
    ultimately show ?thesis by simp
  qed
  from pos third show ?thesis by fastforce
qed

text \<open>The two events of the counterexample, with a threshold of one minute.\<close>

theorem no_gap_for_overlap_witness:
  "find_focus_opportunities
     [example_event 0 (60 * minute) ''standup'', example_event (60 * minute) (90 * minute) ''review'']
     0 1 = []"
  using no_gap_for_overlap [of 1
      "[example_event 0 (60 * minute) ''standup'', example_event (60 * minute) (90 * minute) ''review'']" 0]
  by (simp add: find_focus_opportunities_def example_event_def)

subsection \<open>Fetching the events\<close>

text \<open>
  A response with three items, read at 08:00 with twelve hours ahead: the item with a
  \<open>Z\<close> timestamp is aware and is skipped by the comparison with the naive clock, the
  all-day item has no \<open>dateTime\<close>, and the third one is kept.
\<close>

lemma get_calendar_events_example:
  "get_calendar_events (\<lambda>s. Some example_response) example_dt (480 * minute) 12 (Completed 0 [])
     = [\<lparr>ev_start = 600 * minute, ev_end = 660 * minute, ev_summary = JStr ''standup'',
         ev_description = JStr []\<rparr>]"
  by (simp add: get_calendar_events_def example_response_def example_dt_def replace_Z_def
      parse_times_def in_window_def plus_hours_def hours_def minute_def)

text \<open>
  C8. When the call of the calendar command raises (its timeout among the causes), exits
  with a status other than 0, or prints what \<open>json.loads\<close> cannot decode, the fetch
  returns the empty list, and the search for opportunities on it finds none.
\<close>

theorem calendar_faults_give_no_events:
  assumes "outcome = Raised e
         \<or> (\<exists>rc out. outcome = Completed rc out \<and> (rc \<noteq> 0 \<or> json_loads out = None))"
  shows "get_calendar_events json_loads dt_fromisoformat now hours_ahead outcome = []
       \<and> find_focus_opportunities
           (get_calendar_events json_loads dt_fromisoformat now hours_ahead outcome) now' m = []"
proof -
  have "get_calendar_events json_loads dt_fromisoformat now hours_ahead outcome = []"
    using assms by (auto simp: get_calendar_events_def)
  then show ?thesis
    by (simp add: find_focus_opportunities_def)
qed

text \<open>A timeout, an exit status of 1, and an output that is not JSON.\<close>

theorem calendar_faults_give_no_events_witness:
  "get_calendar_events example_loads example_dt (480 * minute) 12 (Raised TimeoutExpired) = []
   \<and> get_calendar_events example_loads example_dt (480 * minute) 12 (Completed 1 ''{}'') = []
   \<and> get_calendar_events example_loads example_dt (480 * minute) 12 (Completed 0 ''not json'') = []"
  using
    calendar_faults_give_no_events [of "Raised TimeoutExpired" TimeoutExpired example_loads
      example_dt "480 * minute" 12 0 120]
    calendar_faults_give_no_events [of "Completed 1 ''{}''" TimeoutExpired example_loads
      example_dt "480 * minute" 12 0 120]
    calendar_faults_give_no_events [of "Completed 0 ''not json''" TimeoutExpired example_loads
      example_dt "480 * minute" 12 0 120]
  by (simp add: example_loads_def)

end
